theory Spec2Isabelle
  imports Main "HOL-Library.Word" "HOL-Library.Sublist"
begin

section \<open>The data of main.go\<close>

text \<open>
  A clock reading (\<^verbatim>\<open>time.Time\<close>) is a number of nanoseconds. A channel made by
  \<^verbatim>\<open>make(chan struct{})\<close> is the address of its cell in the heap of channels; the
  address is the identity of the channel, as the pointer is in Go.
\<close>

type_synonym time = int
type_synonym chan = nat

text \<open>
  \<^verbatim>\<open>type pendingRequest struct\<close> (lines 40-46). The slice of the server holds pointers
  to these structs; no field is assigned after the struct is built (lines 64-70), so the
  value stands for the pointer, and two requests are the same request exactly when their
  channels are the same channel. The field \<^verbatim>\<open>method\<close> is \<open>httpMethod\<close> here, the source's
  name being a keyword.
\<close>

record pendingRequest =
  requestTime :: time
  responseChan :: chan
  remoteAddr :: string
  path :: string
  httpMethod :: string

text \<open>
  \<^verbatim>\<open>type Server struct\<close> (lines 48-52). \<open>mu\<close> is the state of the \<^verbatim>\<open>sync.Mutex\<close>
  (locked or not). \<^verbatim>\<open>requestCounter\<close> is a Go \<^verbatim>\<open>int\<close>: the Makefile builds for amd64 and
  arm64 only, where it has 64 bits, and Go's \<^verbatim>\<open>++\<close> wraps around. The slice is a list:
  the program only appends to it, takes its length, ranges over it and replaces it by a
  freshly made one, so no two slices ever share cells that one of them writes.
\<close>

record Server =
  mu :: bool
  pendingRequests :: "pendingRequest list"
  requestCounter :: "64 word"

definition NewServer :: Server where
  "NewServer = \<lparr>mu = False, pendingRequests = [], requestCounter = 0\<rparr>"

text \<open>What \<^verbatim>\<open>handleRequest\<close> reads of its \<^verbatim>\<open>*http.Request\<close>.\<close>

record Request =
  RemoteAddr :: string
  URL_Path :: string
  Method :: string

subsection \<open>Goroutines\<close>

text \<open>
  The program points of \<^verbatim>\<open>handleRequest\<close>, one per statement that touches shared state,
  the clock, a channel, the standard output or the connection:
  \<open>H_start\<close> lines 61-70, \<open>H_lock\<close> 73, \<open>H_append\<close> 74, \<open>H_incr\<close> 75, \<open>H_num\<close> 76,
  \<open>H_len\<close> 77, \<open>H_unlock\<close> 78, \<open>H_print1\<close> 80-81, \<open>H_print2\<close> 82, \<open>H_header\<close> 85,
  \<open>H_status\<close> 86, \<open>H_flush\<close> 89-91, \<open>H_wait\<close> 94, \<open>H_time\<close> 96-97, \<open>H_print3\<close> 99-100,
  \<open>H_stamp\<close> 103, \<open>H_encode\<close> 104-107, \<open>H_done\<close> the return.
\<close>

datatype hpc =
    H_start | H_lock | H_append | H_incr | H_num | H_len | H_unlock
  | H_print1 | H_print2 | H_header | H_status | H_flush | H_wait
  | H_time | H_print3 | H_stamp | H_encode | H_done

text \<open>
  The frame of one call of \<^verbatim>\<open>handleRequest\<close>: its program point, its arguments (the
  request, and whether the dynamic type of the \<^verbatim>\<open>http.ResponseWriter\<close> implements
  \<^verbatim>\<open>http.Flusher\<close>) and its local variables, which start at Go's zero values.
\<close>

record handler =
  hpc :: hpc
  request :: Request
  w_flusher :: bool
  req :: pendingRequest
  requestNum :: "64 word"
  pendingCount :: int
  responseTime :: time
  duration :: int
  timestamp :: string

text \<open>
  The program points of \<^verbatim>\<open>waitForEnter\<close>: \<open>T_scan\<close> line 112, \<open>T_lock\<close> 114,
  \<open>T_copy\<close> 115, \<open>T_count\<close> 116, \<open>T_reset\<close> 117, \<open>T_unlock\<close> 118, \<open>T_check\<close> 120-125,
  \<open>T_range\<close> 128-130, \<open>T_done\<close> the return. Its frame holds the local slice
  \<^verbatim>\<open>pendingRequests\<close> (here \<open>drained\<close>, the field of the server has the name), \<^verbatim>\<open>count\<close>
  and the index of the \<^verbatim>\<open>range\<close> loop.
\<close>

datatype tpc =
    T_scan | T_lock | T_copy | T_count | T_reset | T_unlock | T_check | T_range | T_done

record trigger =
  tpc :: tpc
  drained :: "pendingRequest list"
  count :: int
  idx :: nat

subsection \<open>What the program does to the outside, in order\<close>

text \<open>
  An argument of \<^verbatim>\<open>fmt.Printf\<close>, kept as the program passes it: an integer, a string, a
  clock reading formatted with a layout (\<^verbatim>\<open>t.Format(layout)\<close>), a duration.
\<close>

datatype arg = ArgInt int | ArgStr string | ArgTime string time | ArgDuration int

text \<open>
  The history of a run: every call the program makes to the clock, the standard output,
  a connection or a channel, and every append to the slice of the server, in the order
  of the steps. The number in an entry is the goroutine of the handler.
\<close>

datatype obs =
    Now nat time
  | Printf string "arg list"
  | Println string
  | HeaderSet nat string string
  | WriteHeader nat int
  | Flush nat
  | Encode nat "(string \<times> string) list"
  | Appended nat chan
  | Recv nat chan
  | Close chan

text \<open>
  \<open>chans\<close> is the heap of channels (\<open>True\<close>: closed); nothing is ever sent on a channel
  of this program. \<open>stdin_lines\<close> counts the lines the operator has typed that the scanner
  has not consumed (their text is never read), \<open>stdin_eof\<close> says that the input ended.
\<close>

record state =
  server :: Server
  chans :: "bool list"
  handlers :: "handler list"
  trigger :: trigger
  stdin_lines :: nat
  stdin_eof :: bool
  clock :: time
  trace :: "obs list"

datatype error = CloseOfClosedChannel | CloseOfNilChannel | UnlockOfUnlockedMutex

section \<open>The steps of the goroutines\<close>

definition emit :: "obs \<Rightarrow> state \<Rightarrow> state" where
  "emit x s = s\<lparr>trace := trace s @ [x]\<rparr>"

definition frame :: "nat \<Rightarrow> handler \<Rightarrow> state \<Rightarrow> state" where
  "frame g h s = s\<lparr>handlers := (handlers s)[g := h]\<rparr>"

definition closed :: "state \<Rightarrow> chan \<Rightarrow> bool" where
  "closed s c \<longleftrightarrow> c < length (chans s) \<and> chans s ! c"

text \<open>
  One step of goroutine \<open>g\<close> running \<^verbatim>\<open>handleRequest\<close> with frame \<open>h\<close>. \<open>fmt\<close> stands
  for \<^verbatim>\<open>t.UTC().Format(time.RFC3339)\<close> of the standard library. A step that cannot be
  taken (the mutex is held, the channel is still open) leaves the state as it is; a
  panic of the Go runtime is an error.
\<close>

fun handleRequest :: "(time \<Rightarrow> string) \<Rightarrow> hpc \<Rightarrow> nat \<Rightarrow> handler \<Rightarrow> state \<Rightarrow> error + state" where
  "handleRequest fmt H_start g h s =
     Inr (emit (Now g (clock s))
       (frame g (h\<lparr>hpc := H_lock,
                   req := \<lparr>requestTime = clock s, responseChan = length (chans s),
                           remoteAddr = RemoteAddr (request h), path = URL_Path (request h),
                           httpMethod = Method (request h)\<rparr>\<rparr>)
         (s\<lparr>chans := chans s @ [False]\<rparr>)))"
| "handleRequest fmt H_lock g h s =
     (if mu (server s) then Inr s
      else Inr (frame g (h\<lparr>hpc := H_append\<rparr>) (s\<lparr>server := (server s)\<lparr>mu := True\<rparr>\<rparr>)))"
| "handleRequest fmt H_append g h s =
     Inr (emit (Appended g (responseChan (req h)))
       (frame g (h\<lparr>hpc := H_incr\<rparr>)
         (s\<lparr>server := (server s)\<lparr>pendingRequests := pendingRequests (server s) @ [req h]\<rparr>\<rparr>)))"
| "handleRequest fmt H_incr g h s =
     Inr (frame g (h\<lparr>hpc := H_num\<rparr>)
       (s\<lparr>server := (server s)\<lparr>requestCounter := requestCounter (server s) + 1\<rparr>\<rparr>))"
| "handleRequest fmt H_num g h s =
     Inr (frame g (h\<lparr>hpc := H_len, requestNum := requestCounter (server s)\<rparr>) s)"
| "handleRequest fmt H_len g h s =
     Inr (frame g (h\<lparr>hpc := H_unlock,
                       pendingCount := int (length (pendingRequests (server s)))\<rparr>) s)"
| "handleRequest fmt H_unlock g h s =
     (if mu (server s)
      then Inr (frame g (h\<lparr>hpc := H_print1\<rparr>) (s\<lparr>server := (server s)\<lparr>mu := False\<rparr>\<rparr>))
      else Inl UnlockOfUnlockedMutex)"
| "handleRequest fmt H_print1 g h s =
     Inr (emit (Printf ''\<newline>[%s] Request #%d: %s %s from %s\<newline>''
                  [ArgTime ''15:04:05'' (requestTime (req h)), ArgInt (sint (requestNum h)),
                   ArgStr (Method (request h)), ArgStr (URL_Path (request h)),
                   ArgStr (RemoteAddr (request h))])
       (frame g (h\<lparr>hpc := H_print2\<rparr>) s))"
| "handleRequest fmt H_print2 g h s =
     Inr (emit (Printf ''Pending requests: %d (Press ENTER to release all)\<newline>''
                  [ArgInt (pendingCount h)])
       (frame g (h\<lparr>hpc := H_header\<rparr>) s))"
| "handleRequest fmt H_header g h s =
     Inr (emit (HeaderSet g ''Content-Type'' ''text/plain'') (frame g (h\<lparr>hpc := H_status\<rparr>) s))"
| "handleRequest fmt H_status g h s =
     Inr (emit (WriteHeader g 200) (frame g (h\<lparr>hpc := H_flush\<rparr>) s))"
| "handleRequest fmt H_flush g h s =
     (if w_flusher h then Inr (emit (Flush g) (frame g (h\<lparr>hpc := H_wait\<rparr>) s))
      else Inr (frame g (h\<lparr>hpc := H_wait\<rparr>) s))"
| "handleRequest fmt H_wait g h s =
     (if closed s (responseChan (req h))
      then Inr (emit (Recv g (responseChan (req h))) (frame g (h\<lparr>hpc := H_time\<rparr>) s))
      else Inr s)"
| "handleRequest fmt H_time g h s =
     Inr (emit (Now g (clock s))
       (frame g (h\<lparr>hpc := H_print3, responseTime := clock s,
                     duration := clock s - requestTime (req h)\<rparr>) s))"
| "handleRequest fmt H_print3 g h s =
     Inr (emit (Printf ''[%s] Request #%d: Response body sent after waiting %s\<newline>''
                  [ArgTime ''15:04:05'' (responseTime h), ArgInt (sint (requestNum h)),
                   ArgDuration (duration h)])
       (frame g (h\<lparr>hpc := H_stamp\<rparr>) s))"
| "handleRequest fmt H_stamp g h s =
     Inr (emit (Now g (clock s)) (frame g (h\<lparr>hpc := H_encode, timestamp := fmt (clock s)\<rparr>) s))"
| "handleRequest fmt H_encode g h s =
     Inr (emit (Encode g [(''timestamp'', timestamp h)]) (frame g (h\<lparr>hpc := H_done\<rparr>) s))"
| "handleRequest fmt H_done g h s = Inr s"

text \<open>
  One step of the goroutine running \<^verbatim>\<open>waitForEnter\<close> with frame \<open>t\<close>.
  \<^verbatim>\<open>scanner.Scan()\<close> waits for a line and returns false when the input has ended.
  \<^verbatim>\<open>close\<close> of a closed channel panics.
\<close>

fun waitForEnter :: "tpc \<Rightarrow> trigger \<Rightarrow> state \<Rightarrow> error + state" where
  "waitForEnter T_scan t s =
     (if 0 < stdin_lines s
      then Inr (s\<lparr>stdin_lines := stdin_lines s - 1, trigger := t\<lparr>tpc := T_lock\<rparr>\<rparr>)
      else if stdin_eof s then Inr (s\<lparr>trigger := t\<lparr>tpc := T_done\<rparr>\<rparr>)
      else Inr s)"
| "waitForEnter T_lock t s =
     (if mu (server s) then Inr s
      else Inr (s\<lparr>server := (server s)\<lparr>mu := True\<rparr>, trigger := t\<lparr>tpc := T_copy\<rparr>\<rparr>))"
| "waitForEnter T_copy t s =
     Inr (s\<lparr>trigger := t\<lparr>tpc := T_count, drained := pendingRequests (server s)\<rparr>\<rparr>)"
| "waitForEnter T_count t s =
     Inr (s\<lparr>trigger := t\<lparr>tpc := T_reset, count := int (length (drained t))\<rparr>\<rparr>)"
| "waitForEnter T_reset t s =
     Inr (s\<lparr>server := (server s)\<lparr>pendingRequests := []\<rparr>, trigger := t\<lparr>tpc := T_unlock\<rparr>\<rparr>)"
| "waitForEnter T_unlock t s =
     (if mu (server s)
      then Inr (s\<lparr>server := (server s)\<lparr>mu := False\<rparr>, trigger := t\<lparr>tpc := T_check\<rparr>\<rparr>)
      else Inl UnlockOfUnlockedMutex)"
| "waitForEnter T_check t s =
     (if count t = 0
      then Inr (emit (Println ''No pending requests'') (s\<lparr>trigger := t\<lparr>tpc := T_scan\<rparr>\<rparr>))
      else Inr (emit (Printf ''\<newline>Releasing %d pending request(s)...\<newline>'' [ArgInt (count t)])
                  (s\<lparr>trigger := t\<lparr>tpc := T_range, idx := 0\<rparr>\<rparr>)))"
| "waitForEnter T_range t s =
     (if idx t < length (drained t)
      then (let c = responseChan (drained t ! idx t) in
            if length (chans s) \<le> c then Inl CloseOfNilChannel
            else if chans s ! c then Inl CloseOfClosedChannel
            else Inr (emit (Close c)
                   (s\<lparr>chans := (chans s)[c := True], trigger := t\<lparr>idx := idx t + 1\<rparr>\<rparr>)))
      else Inr (s\<lparr>trigger := t\<lparr>tpc := T_scan\<rparr>\<rparr>))"
| "waitForEnter T_done t s = Inr s"

section \<open>The program\<close>

text \<open>
  What can happen next: the HTTP server accepts a request and starts a goroutine that
  calls \<^verbatim>\<open>handleRequest\<close>; a handler goroutine takes its next step; the goroutine of
  \<^verbatim>\<open>waitForEnter\<close> takes its next step; the operator types a line; the operator's input
  ends; time passes.
\<close>

datatype event = Arrive Request bool | Handler nat | Trigger | Enter | Eof | Tick nat

definition new_handler :: "Request \<Rightarrow> bool \<Rightarrow> handler" where
  "new_handler rq fl =
     \<lparr>hpc = H_start, request = rq, w_flusher = fl,
      req = \<lparr>requestTime = 0, responseChan = 0, remoteAddr = [], path = [], httpMethod = []\<rparr>,
      requestNum = 0, pendingCount = 0, responseTime = 0, duration = 0, timestamp = []\<rparr>"

fun step :: "(time \<Rightarrow> string) \<Rightarrow> event \<Rightarrow> state \<Rightarrow> error + state" where
  "step fmt (Arrive rq fl) s = Inr (s\<lparr>handlers := handlers s @ [new_handler rq fl]\<rparr>)"
| "step fmt (Handler g) s =
     (if g < length (handlers s)
      then handleRequest fmt (hpc (handlers s ! g)) g (handlers s ! g) s
      else Inr s)"
| "step fmt Trigger s = waitForEnter (tpc (trigger s)) (trigger s) s"
| "step fmt Enter s =
     (if stdin_eof s then Inr s else Inr (s\<lparr>stdin_lines := stdin_lines s + 1\<rparr>))"
| "step fmt Eof s = Inr (s\<lparr>stdin_eof := True\<rparr>)"
| "step fmt (Tick d) s = Inr (s\<lparr>clock := clock s + int d\<rparr>)"

fun run :: "(time \<Rightarrow> string) \<Rightarrow> event list \<Rightarrow> state \<Rightarrow> error + state" where
  "run fmt [] s = Inr s"
| "run fmt (e # es) s = (case step fmt e s of Inl x \<Rightarrow> Inl x | Inr s' \<Rightarrow> run fmt es s')"

text \<open>
  \<^verbatim>\<open>main\<close> (lines 134-155): the port is the value of \<^verbatim>\<open>PORT\<close>, or 8080 when
  \<^verbatim>\<open>os.Getenv\<close> returns the empty string, which it does for a variable that is not set;
  the address passed to \<^verbatim>\<open>http.ListenAndServe\<close> is a colon and the port.
\<close>

definition Getenv :: "(string \<rightharpoonup> string) \<Rightarrow> string \<Rightarrow> string" where
  "Getenv env k = (case env k of None \<Rightarrow> [] | Some v \<Rightarrow> v)"

definition main_port :: "(string \<rightharpoonup> string) \<Rightarrow> string" where
  "main_port env = (let port = Getenv env ''PORT'' in if port = [] then ''8080'' else port)"

definition main_addr :: "(string \<rightharpoonup> string) \<Rightarrow> string" where
  "main_addr env = '':'' @ main_port env"

text \<open>
  The state in which \<^verbatim>\<open>main\<close> starts serving: a new server, the goroutine of
  \<^verbatim>\<open>waitForEnter\<close> at its first \<^verbatim>\<open>Scan\<close>, no request yet.
\<close>

definition init :: state where
  "init = \<lparr>server = NewServer, chans = [], handlers = [],
           trigger = \<lparr>tpc = T_scan, drained = [], count = 0, idx = 0\<rparr>,
           stdin_lines = 0, stdin_eof = False, clock = 0, trace = []\<rparr>"

section \<open>The listen port\<close>

text \<open>
  C8: the port \<^verbatim>\<open>main\<close> listens on is the value of \<^verbatim>\<open>PORT\<close> when that variable is set
  and not empty, and 8080 when it is not set or empty; the address given to
  \<^verbatim>\<open>http.ListenAndServe\<close> is a colon followed by that port.
\<close>

theorem main_port_from_env:
  "(env ''PORT'' = Some p \<and> p \<noteq> [] \<longrightarrow> main_port env = p \<and> main_addr env = '':'' @ p) \<and>
   (env ''PORT'' = None \<or> env ''PORT'' = Some [] \<longrightarrow>
      main_port env = ''8080'' \<and> main_addr env = '':8080'')"
  by (auto simp: main_port_def main_addr_def Getenv_def)

theorem main_port_from_env_witness:
  "main_port [''PORT'' \<mapsto> ''3000''] = ''3000'' \<and> main_addr [''PORT'' \<mapsto> ''3000''] = '':3000'' \<and>
   main_port Map.empty = ''8080'' \<and> main_addr Map.empty = '':8080'' \<and>
   main_port [''PORT'' \<mapsto> []] = ''8080''"
  using main_port_from_env [of "[''PORT'' \<mapsto> ''3000'']" "''3000''"]
    main_port_from_env [of "Map.empty" "[]"]
    main_port_from_env [of "[''PORT'' \<mapsto> []]" "[]"]
  by simp

end
